theory Spec2Isabelle
  imports Main "HOL-Library.Word"
begin

section \<open>GTpo utilities (gtpoUtils.h)\<close>

subsection \<open>The topology error and the throwing assertion\<close>

text \<open>
  \<^verbatim>\<open>class bad_topology_error : public std::runtime_error\<close> adds no member of its own:
  the only datum of the exception is the string that \<^verbatim>\<open>std::runtime_error\<close> stores.
  A \<^verbatim>\<open>std::string\<close> is a sequence of bytes of any value, the NUL byte included.
\<close>

record bad_topology_error =
  stored_msg :: string

text \<open>The C-string view of a sequence of bytes, \<^verbatim>\<open>c_str()\<close> read as a
  \<^verbatim>\<open>const char*\<close>: the bytes before the first NUL.\<close>

definition c_str :: "string \<Rightarrow> string" where
  "c_str s = takeWhile (\<lambda>c. c \<noteq> CHR 0x00) s"

text \<open>\<^verbatim>\<open>std::runtime_error::what()\<close> returns a \<^verbatim>\<open>const char*\<close> to the stored string: the
  diagnostic that a caller reads ends at the first NUL byte.\<close>

definition what :: "bad_topology_error \<Rightarrow> string" where
  "what e = c_str (stored_msg e)"

text \<open>
  The three constructors, in the order of the source. The one taking
  \<^verbatim>\<open>const std::string&\<close> hands the whole string to \<^verbatim>\<open>std::runtime_error\<close>; the one
  taking \<^verbatim>\<open>const char*\<close> hands over a C string, read up to its terminator; the default
  constructor delegates to the \<^verbatim>\<open>const char*\<close> one with the literal of the source.
\<close>

definition bad_topology_error_string :: "string \<Rightarrow> bad_topology_error" where
  "bad_topology_error_string what_arg = \<lparr>stored_msg = what_arg\<rparr>"

definition bad_topology_error_cstr :: "string \<Rightarrow> bad_topology_error" where
  "bad_topology_error_cstr what_arg = \<lparr>stored_msg = c_str what_arg\<rparr>"

definition bad_topology_error_default :: bad_topology_error where
  "bad_topology_error_default = bad_topology_error_cstr ''GTpo topology unrecoverable error.''"

text \<open>
  \<^verbatim>\<open>template < class E = gtpo::bad_topology_error >
  auto assert_throw( bool expr, std::string message = std::string{ "" } ) -> void
  { if ( !expr ) throw E( message ); }\<close>

  The template parameter \<^verbatim>\<open>E\<close> is the constructor of the exception from a
  \<^verbatim>\<open>std::string\<close>; a thrown exception is the left injection, a normal return the right
  one.
\<close>

definition assert_throw_as :: "(string \<Rightarrow> 'e) \<Rightarrow> bool \<Rightarrow> string \<Rightarrow> 'e + unit" where
  "assert_throw_as E expr message = (if \<not> expr then Inl (E message) else Inr ())"

text \<open>With the default template argument: \<^verbatim>\<open>E( message )\<close> selects the
  \<^verbatim>\<open>const std::string&\<close> constructor, since \<^verbatim>\<open>message\<close> is a \<^verbatim>\<open>std::string\<close>.\<close>

definition assert_throw :: "bool \<Rightarrow> string \<Rightarrow> bad_topology_error + unit" where
  "assert_throw expr message = assert_throw_as bad_topology_error_string expr message"

text \<open>The call \<^verbatim>\<open>assert_throw( expr )\<close>: the default argument of \<^verbatim>\<open>message\<close> is
  \<^verbatim>\<open>std::string{ "" }\<close>.\<close>

definition assert_throw_no_message :: "bool \<Rightarrow> bad_topology_error + unit" where
  "assert_throw_no_message expr = assert_throw expr ''''"

text \<open>What a caller that catches the exception reads with \<^verbatim>\<open>what()\<close>, as a C string;
  \<open>None\<close> when nothing was thrown.\<close>

definition diagnostic :: "bad_topology_error + unit \<Rightarrow> string option" where
  "diagnostic r = (case r of Inl e \<Rightarrow> Some (what e) | Inr u \<Rightarrow> None)"

definition raises :: "'e + unit \<Rightarrow> bool" where
  "raises r = (case r of Inl e \<Rightarrow> True | Inr u \<Rightarrow> False)"

subsection \<open>Shared and weak pointers\<close>

text \<open>
  The weak-pointer utilities of the source are written against four operations of the
  standard library: \<^verbatim>\<open>weak_ptr::owner_before\<close>, \<^verbatim>\<open>weak_ptr::lock\<close>, the destructor of
  the temporary \<^verbatim>\<open>shared_ptr\<close> and \<^verbatim>\<open>std::hash<std::shared_ptr<T>>\<close>. A smart pointer
  is a pair of addresses: the control block (the ownership group; null when the pointer
  is empty) and the stored pointer (what \<^verbatim>\<open>get()\<close> returns). The two are independent:
  a pointer made by the aliasing constructor \<^verbatim>\<open>shared_ptr<T>( owner, p )\<close> shares the
  control block of \<^verbatim>\<open>owner\<close> and stores \<^verbatim>\<open>p\<close>.
\<close>

type_synonym addr = "64 word"
type_synonym size_t = "64 word"

record shared_ptr =
  sp_ctrl :: addr
  sp_ptr :: addr

record weak_ptr =
  wp_ctrl :: addr
  wp_ptr :: addr

text \<open>A control block counts the owners and remembers the object it manages (the
  pointer its deleter is run on).\<close>

record ctrl_block =
  use_count :: nat
  managed :: addr

type_synonym ctrl_heap = "addr \<rightharpoonup> ctrl_block"

definition nullptr :: addr where
  "nullptr = 0"

definition empty_shared_ptr :: shared_ptr where
  "empty_shared_ptr = \<lparr>sp_ctrl = nullptr, sp_ptr = nullptr\<rparr>"

text \<open>\<^verbatim>\<open>use_count()\<close>: zero for a pointer without control block.\<close>

definition use_count_of :: "ctrl_heap \<Rightarrow> addr \<Rightarrow> nat" where
  "use_count_of h c =
     (if c = nullptr then 0 else case h c of None \<Rightarrow> 0 | Some b \<Rightarrow> use_count b)"

definition expired :: "ctrl_heap \<Rightarrow> weak_ptr \<Rightarrow> bool" where
  "expired h w = (use_count_of h (wp_ctrl w) = 0)"

text \<open>\<^verbatim>\<open>std::weak_ptr<T>( sp )\<close>: a weak reference taken from a shared pointer shares
  its control block and copies its stored pointer.\<close>

definition weak_ptr_of :: "shared_ptr \<Rightarrow> weak_ptr" where
  "weak_ptr_of sp = \<lparr>wp_ctrl = sp_ctrl sp, wp_ptr = sp_ptr sp\<rparr>"

text \<open>\<^verbatim>\<open>owner_before\<close>: the owner-based strict weak order of the standard library. Its
  implementations (libstdc++, libc++, the Microsoft library) compare the addresses of the
  control blocks, whatever the stored pointers are; two empty pointers have the null
  control block both.\<close>

definition owner_before :: "weak_ptr \<Rightarrow> weak_ptr \<Rightarrow> bool" where
  "owner_before l r = (wp_ctrl l < wp_ctrl r)"

text \<open>\<^verbatim>\<open>lock()\<close>: \<^verbatim>\<open>expired() ? shared_ptr<T>() : shared_ptr<T>( *this )\<close>, in one step. The
  new owner is counted in the control block.\<close>

definition add_owner :: "ctrl_heap \<Rightarrow> addr \<Rightarrow> ctrl_heap" where
  "add_owner h c =
     (case h c of None \<Rightarrow> h | Some b \<Rightarrow> h(c \<mapsto> b\<lparr>use_count := use_count b + 1\<rparr>))"

definition lock :: "ctrl_heap \<Rightarrow> weak_ptr \<Rightarrow> shared_ptr \<times> ctrl_heap" where
  "lock h w =
     (if expired h w then (empty_shared_ptr, h)
      else (\<lparr>sp_ctrl = wp_ctrl w, sp_ptr = wp_ptr w\<rparr>, add_owner h (wp_ctrl w)))"

text \<open>The destructor of a \<^verbatim>\<open>shared_ptr\<close>: an empty pointer releases nothing, any other
  gives up one ownership.\<close>

definition release :: "ctrl_heap \<Rightarrow> shared_ptr \<Rightarrow> ctrl_heap" where
  "release h sp =
     (if sp_ctrl sp = nullptr then h
      else case h (sp_ctrl sp) of None \<Rightarrow> h
           | Some b \<Rightarrow> h(sp_ctrl sp \<mapsto> b\<lparr>use_count := use_count b - 1\<rparr>))"

text \<open>\<^verbatim>\<open>std::hash<std::shared_ptr<T>>\<close> is the hash of the stored pointer:
  \<^verbatim>\<open>std::hash<T*>()( p.get() )\<close>. The hash of raw pointers is the library's own; it is a
  parameter \<open>H\<close> of the model.\<close>

definition hash_shared_ptr :: "(addr \<Rightarrow> size_t) \<Rightarrow> shared_ptr \<Rightarrow> size_t" where
  "hash_shared_ptr H p = H (sp_ptr p)"

text \<open>libstdc++'s \<^verbatim>\<open>std::hash<T*>\<close>: \<^verbatim>\<open>reinterpret_cast<std::size_t>( p )\<close>.\<close>

definition hash_ptr_cast :: "addr \<Rightarrow> size_t" where
  "hash_ptr_cast p = p"

subsection \<open>Comparison and hash of weak pointers\<close>

text \<open>\<^verbatim>\<open>gtpo::compare_weak_ptr\<close>:
  \<^verbatim>\<open>return !left.owner_before( right ) && !right.owner_before( left );\<close>\<close>

definition compare_weak_ptr :: "weak_ptr \<Rightarrow> weak_ptr \<Rightarrow> bool" where
  "compare_weak_ptr left right =
     (\<not> owner_before left right \<and> \<not> owner_before right left)"

text \<open>\<^verbatim>\<open>std::equal_to< std::weak_ptr< T > >::operator()\<close>, the same expression written a
  second time in the source.\<close>

definition equal_to_weak_ptr :: "weak_ptr \<Rightarrow> weak_ptr \<Rightarrow> bool" where
  "equal_to_weak_ptr left right =
     (\<not> owner_before left right \<and> \<not> owner_before right left)"

text \<open>\<^verbatim>\<open>std::hash< std::weak_ptr< T > >::operator()\<close>:
  \<^verbatim>\<open>return std::hash< typename std::shared_ptr<T> >()( key.lock() );\<close>
  The temporary made by \<^verbatim>\<open>lock()\<close> is hashed and then destroyed at the end of the
  expression. The result is the hash with the heap after the call.\<close>

definition hash_weak_ptr :: "(addr \<Rightarrow> size_t) \<Rightarrow> ctrl_heap \<Rightarrow> weak_ptr \<Rightarrow> size_t \<times> ctrl_heap" where
  "hash_weak_ptr H h key =
     (let (tmp, h1) = lock h key;
          r = hash_shared_ptr H tmp;
          h2 = release h1 tmp
      in (r, h2))"

text \<open>The ownership group of the specification: the handles that refer to the same
  control block.\<close>

definition same_ownership_group :: "weak_ptr \<Rightarrow> weak_ptr \<Rightarrow> bool" where
  "same_ownership_group a b = (wp_ctrl a = wp_ctrl b)"

subsection \<open>Example data\<close>

text \<open>
  A heap with two control blocks. The block at \<open>0x1000\<close> manages a live object at
  \<open>0x2000\<close>, say a \<^verbatim>\<open>struct Pair { int x; int y; }\<close> held by a \<^verbatim>\<open>shared_ptr<Pair> owner\<close>,
  and has three owners: \<^verbatim>\<open>owner\<close> and the two aliasing pointers
  \<^verbatim>\<open>shared_ptr<int> px( owner, &owner->x )\<close> and \<^verbatim>\<open>shared_ptr<int> py( owner, &owner->y )\<close>.
  The block at \<open>0x3000\<close> has lost its last owner and is kept by weak references only.
\<close>

definition example_heap :: ctrl_heap where
  "example_heap =
     [0x1000 \<mapsto> \<lparr>use_count = 3, managed = 0x2000\<rparr>,
      0x3000 \<mapsto> \<lparr>use_count = 0, managed = 0x4000\<rparr>]"

text \<open>The same heap later: \<^verbatim>\<open>px\<close> and \<^verbatim>\<open>py\<close> are destroyed, the weak references to
  the other block are gone and the block is freed.\<close>

definition example_heap_later :: ctrl_heap where
  "example_heap_later = [0x1000 \<mapsto> \<lparr>use_count = 1, managed = 0x2000\<rparr>]"

text \<open>\<^verbatim>\<open>std::weak_ptr<int> wx( px ), wy( py );\<close> with \<^verbatim>\<open>&owner->x\<close> at \<open>0x2000\<close> and
  \<^verbatim>\<open>&owner->y\<close> at \<open>0x2004\<close>.\<close>

definition weak_x :: weak_ptr where
  "weak_x = \<lparr>wp_ctrl = 0x1000, wp_ptr = 0x2000\<rparr>"

definition weak_y :: weak_ptr where
  "weak_y = \<lparr>wp_ctrl = 0x1000, wp_ptr = 0x2004\<rparr>"

text \<open>A weak pointer whose object is gone, and a default-constructed one.\<close>

definition weak_gone :: weak_ptr where
  "weak_gone = \<lparr>wp_ctrl = 0x3000, wp_ptr = 0x4000\<rparr>"

definition weak_empty :: weak_ptr where
  "weak_empty = \<lparr>wp_ctrl = nullptr, wp_ptr = nullptr\<rparr>"

text \<open>The owner of the live block: \<^verbatim>\<open>shared_ptr<Pair> owner\<close>.\<close>

definition owner_ptr :: shared_ptr where
  "owner_ptr = \<lparr>sp_ctrl = 0x1000, sp_ptr = 0x2000\<rparr>"

section \<open>Properties\<close>

subsection \<open>Helper facts\<close>

lemma owner_equiv_iff:
  "(\<not> owner_before a b \<and> \<not> owner_before b a) = (wp_ctrl a = wp_ctrl b)"
  by (auto simp: owner_before_def)

lemma lock_live:
  "\<not> expired h w \<Longrightarrow> fst (lock h w) = \<lparr>sp_ctrl = wp_ctrl w, sp_ptr = wp_ptr w\<rparr>"
  by (simp add: lock_def)

lemma lock_expired: "expired h w \<Longrightarrow> lock h w = (empty_shared_ptr, h)"
  by (simp add: lock_def)

lemma hash_weak_ptr_fst: "fst (hash_weak_ptr H h w) = hash_shared_ptr H (fst (lock h w))"
  by (simp add: hash_weak_ptr_def Let_def split: prod.splits)

lemma hash_weak_ptr_live: "\<not> expired h w \<Longrightarrow> fst (hash_weak_ptr H h w) = H (wp_ptr w)"
  by (simp add: hash_weak_ptr_fst lock_live hash_shared_ptr_def)

lemma hash_weak_ptr_expired: "expired h w \<Longrightarrow> fst (hash_weak_ptr H h w) = H nullptr"
  by (simp add: hash_weak_ptr_fst lock_expired hash_shared_ptr_def empty_shared_ptr_def)

text \<open>The temporary strong reference leaves no trace: the heap after hashing is the
  heap before.\<close>

lemma hash_weak_ptr_heap: "snd (hash_weak_ptr H h w) = h"
proof (cases "expired h w")
  case True
  then show ?thesis
    by (simp add: hash_weak_ptr_def lock_expired release_def empty_shared_ptr_def)
next
  case False
  then obtain b where b: "h (wp_ctrl w) = Some b" and nz: "wp_ctrl w \<noteq> nullptr"
    by (auto simp: expired_def use_count_of_def split: if_splits option.splits)
  have "h(wp_ctrl w \<mapsto> b) = h"
    using b by (simp add: map_upd_triv)
  with False b nz show ?thesis
    by (simp add: hash_weak_ptr_def lock_def add_owner_def release_def)
qed

lemma example_live: "\<not> expired example_heap weak_x" "\<not> expired example_heap weak_y"
  by (simp_all add: expired_def use_count_of_def example_heap_def weak_x_def weak_y_def
      nullptr_def)

lemma example_expired: "expired example_heap weak_gone" "expired h weak_empty"
  by (simp_all add: expired_def use_count_of_def example_heap_def weak_gone_def
      weak_empty_def nullptr_def)

subsection \<open>The throwing assertion\<close>

text \<open>
  Claim C4, as the specification states it, fails on a message with a NUL byte inside:
  \<^verbatim>\<open>assert_throw( false, std::string( "a\0b", 3 ) )\<close> throws an exception whose
  \<^verbatim>\<open>what()\<close> is \<^verbatim>\<open>"a"\<close>, not the three bytes supplied.
\<close>

theorem assert_throw_message_cut_at_nul:
  "diagnostic (assert_throw False [CHR ''a'', CHR 0x00, CHR ''b'']) = Some ''a''
   \<and> diagnostic (assert_throw False [CHR ''a'', CHR 0x00, CHR ''b''])
       \<noteq> Some [CHR ''a'', CHR 0x00, CHR ''b'']"
  by (simp add: assert_throw_def assert_throw_as_def diagnostic_def what_def c_str_def
      bad_topology_error_string_def)

text \<open>
  Claim C4, amended. For every boolean \<open>expr\<close> and every message, the empty one included,
  \<^verbatim>\<open>assert_throw( expr, message )\<close> throws exactly when \<open>expr\<close> is false; with a true
  \<open>expr\<close> it returns and does nothing else; with a false \<open>expr\<close> the diagnostic of the
  exception thrown is the message supplied up to its first NUL byte, so that it is
  the message supplied exactly when the message has no NUL byte in it.
\<close>

theorem assert_throw_message:
  "raises (assert_throw expr message) = (\<not> expr)
   \<and> assert_throw True message = Inr ()
   \<and> diagnostic (assert_throw False message) = Some (c_str message)
   \<and> (diagnostic (assert_throw False message) = Some message) = (CHR 0x00 \<notin> set message)
   \<and> diagnostic (assert_throw False []) = Some []"
proof -
  have d: "diagnostic (assert_throw False message) = Some (c_str message)" for message
    by (simp add: assert_throw_def assert_throw_as_def diagnostic_def what_def
        bad_topology_error_string_def)
  have "(c_str message = message) = (CHR 0x00 \<notin> set message)"
    by (auto simp: c_str_def takeWhile_eq_all_conv)
  moreover have "c_str [] = []"
    by (simp add: c_str_def)
  moreover have "raises (assert_throw expr message) = (\<not> expr)"
    and "assert_throw True message = Inr ()"
    by (simp_all add: assert_throw_def assert_throw_as_def raises_def)
  ultimately show ?thesis
    by (simp add: d)
qed

text \<open>
  Claim C5, as the specification states it, fails: \<^verbatim>\<open>assert_throw( false )\<close> without a
  message does not throw an exception whose diagnostic is the generic text
  "GTpo topology unrecoverable error.".
\<close>

theorem assert_throw_no_message_not_generic:
  "diagnostic (assert_throw_no_message False) \<noteq> Some ''GTpo topology unrecoverable error.''"
  by (simp add: assert_throw_no_message_def assert_throw_def assert_throw_as_def
      diagnostic_def bad_topology_error_string_def what_def c_str_def)

text \<open>
  Claim C5, amended. \<^verbatim>\<open>assert_throw( false )\<close> without a message throws an exception
  whose diagnostic is the empty string, the default value of the parameter
  \<open>message\<close>; the generic text is the diagnostic of a default-constructed
  \<^verbatim>\<open>bad_topology_error\<close>, a constructor that \<^verbatim>\<open>assert_throw\<close> does not call.
\<close>

theorem assert_throw_no_message_empty:
  "diagnostic (assert_throw_no_message False) = Some ''''
   \<and> what bad_topology_error_default = ''GTpo topology unrecoverable error.''"
  by (simp add: assert_throw_no_message_def assert_throw_def assert_throw_as_def
      diagnostic_def bad_topology_error_string_def bad_topology_error_default_def
      bad_topology_error_cstr_def what_def c_str_def)

subsection \<open>Equality of weak pointers\<close>

text \<open>
  Claim C9. On every pair of weak pointers \<^verbatim>\<open>gtpo::compare_weak_ptr\<close> and the
  specialisation of \<^verbatim>\<open>std::equal_to\<close> return the same boolean.
\<close>

theorem compare_weak_ptr_is_equal_to: "compare_weak_ptr a b = equal_to_weak_ptr a b"
  by (simp add: compare_weak_ptr_def equal_to_weak_ptr_def)

text \<open>
  Claim C3. Both equalities return true exactly when the two weak pointers belong to
  the same ownership group, and they decide it by asking \<^verbatim>\<open>owner_before\<close> in both
  directions: equal when neither is ordered before the other. This holds for all weak
  pointers, the non-expired ones in particular.
\<close>

theorem equality_is_same_ownership_group:
  "compare_weak_ptr a b = same_ownership_group a b
   \<and> equal_to_weak_ptr a b = same_ownership_group a b
   \<and> same_ownership_group a b = (\<not> owner_before a b \<and> \<not> owner_before b a)"
  by (simp add: compare_weak_ptr_def equal_to_weak_ptr_def same_ownership_group_def
      owner_equiv_iff)

text \<open>
  Claim C2. The equality of weak pointers is an equivalence relation: it is reflexive,
  symmetric and transitive, under either of its two names. This holds for all weak
  pointers, the non-expired ones in particular.
\<close>

theorem equality_equivalence:
  "equal_to_weak_ptr a a
   \<and> equal_to_weak_ptr a b = equal_to_weak_ptr b a
   \<and> (equal_to_weak_ptr a b \<and> equal_to_weak_ptr b c \<longrightarrow> equal_to_weak_ptr a c)
   \<and> compare_weak_ptr a a
   \<and> compare_weak_ptr a b = compare_weak_ptr b a
   \<and> (compare_weak_ptr a b \<and> compare_weak_ptr b c \<longrightarrow> compare_weak_ptr a c)"
proof -
  have e: "\<And>x y. equal_to_weak_ptr x y = (wp_ctrl x = wp_ctrl y)"
    by (simp add: equal_to_weak_ptr_def owner_equiv_iff)
  have c: "\<And>x y. compare_weak_ptr x y = (wp_ctrl x = wp_ctrl y)"
    by (simp add: compare_weak_ptr_def owner_equiv_iff)
  show ?thesis
    unfolding e c by auto
qed

theorem equality_equivalence_witness:
  "equal_to_weak_ptr weak_x weak_y \<and> equal_to_weak_ptr weak_y weak_x
   \<and> equal_to_weak_ptr weak_x weak_x
   \<and> compare_weak_ptr weak_x weak_y \<and> compare_weak_ptr weak_y weak_x
   \<and> compare_weak_ptr weak_x weak_x"
proof -
  have xy: "equal_to_weak_ptr weak_x weak_y" "compare_weak_ptr weak_x weak_y"
    by (simp_all add: equal_to_weak_ptr_def compare_weak_ptr_def owner_before_def
        weak_x_def weak_y_def)
  from equality_equivalence [of weak_x weak_y]
  have yx: "equal_to_weak_ptr weak_y weak_x" "compare_weak_ptr weak_y weak_x"
    using xy by simp_all
  from equality_equivalence [of weak_x weak_y weak_x]
  have "equal_to_weak_ptr weak_x weak_x" "compare_weak_ptr weak_x weak_x"
    using xy yx by simp_all
  with xy yx show ?thesis by simp
qed

subsection \<open>The hash of weak pointers\<close>

text \<open>
  Claim C6. The hash of a weak pointer to a live object is the standard hash of the
  strong pointer that \<^verbatim>\<open>lock()\<close> returns for it; that strong pointer shares the
  control block and the stored pointer of the weak one, and it is temporary: once the
  hash is computed the owners are counted as before.
\<close>

theorem hash_is_hash_of_locked:
  assumes "\<not> expired h a"
  shows "fst (hash_weak_ptr H h a) = hash_shared_ptr H (fst (lock h a))
         \<and> fst (lock h a) = \<lparr>sp_ctrl = wp_ctrl a, sp_ptr = wp_ptr a\<rparr>
         \<and> snd (hash_weak_ptr H h a) = h"
  using assms by (simp add: hash_weak_ptr_fst lock_live hash_weak_ptr_heap)

theorem hash_is_hash_of_locked_witness:
  "\<not> expired example_heap weak_y
   \<and> fst (hash_weak_ptr hash_ptr_cast example_heap weak_y)
       = hash_shared_ptr hash_ptr_cast (fst (lock example_heap weak_y))
   \<and> fst (lock example_heap weak_y) = \<lparr>sp_ctrl = 0x1000, sp_ptr = 0x2004\<rparr>
   \<and> snd (hash_weak_ptr hash_ptr_cast example_heap weak_y) = example_heap"
  using hash_is_hash_of_locked [OF example_live(2), of hash_ptr_cast] example_live(2)
  by (simp add: weak_y_def)

text \<open>
  Claim C10. The hash of an expired or empty weak pointer is defined: it is the hash of
  a null strong pointer. Hence any two expired or empty weak pointers have the same
  hash.
\<close>

theorem hash_of_expired:
  assumes "expired h w" and "expired h' w'"
  shows "fst (hash_weak_ptr H h w) = hash_shared_ptr H empty_shared_ptr
         \<and> fst (hash_weak_ptr H h w) = fst (hash_weak_ptr H h' w')"
  using assms by (simp add: hash_weak_ptr_expired hash_shared_ptr_def empty_shared_ptr_def)

theorem hash_of_expired_witness:
  "expired example_heap weak_gone \<and> expired example_heap weak_empty
   \<and> fst (hash_weak_ptr hash_ptr_cast example_heap weak_gone) = 0
   \<and> fst (hash_weak_ptr hash_ptr_cast example_heap weak_gone)
       = fst (hash_weak_ptr hash_ptr_cast example_heap weak_empty)"
proof -
  note gone = example_expired(1) and none = example_expired(2) [of example_heap]
  note t = hash_of_expired [OF gone none, of hash_ptr_cast]
  from t have "fst (hash_weak_ptr hash_ptr_cast example_heap weak_gone) = 0"
    by (simp add: hash_shared_ptr_def empty_shared_ptr_def hash_ptr_cast_def nullptr_def)
  moreover from t have "fst (hash_weak_ptr hash_ptr_cast example_heap weak_gone)
      = fst (hash_weak_ptr hash_ptr_cast example_heap weak_empty)"
    by (rule conjunct2)
  ultimately show ?thesis
    using gone none by blast
qed

text \<open>
  Claim C7. Two weak pointers taken from one live shared pointer \<open>e\<close> are equal and
  have the same hash, also when the second is taken and hashed later, in another heap
  where \<open>e\<close> still lives; and resolving the first gives \<open>e\<close> back.
\<close>

theorem weak_round_trip:
  assumes "0 < use_count_of h (sp_ctrl e)" and "0 < use_count_of h' (sp_ctrl e)"
  shows "equal_to_weak_ptr (weak_ptr_of e) (weak_ptr_of e)
         \<and> compare_weak_ptr (weak_ptr_of e) (weak_ptr_of e)
         \<and> fst (lock h (weak_ptr_of e)) = e
         \<and> fst (hash_weak_ptr H h (weak_ptr_of e)) = fst (hash_weak_ptr H h' (weak_ptr_of e))"
proof -
  have live: "\<not> expired h (weak_ptr_of e)" "\<not> expired h' (weak_ptr_of e)"
    using assms by (simp_all add: expired_def weak_ptr_of_def)
  have "equal_to_weak_ptr (weak_ptr_of e) (weak_ptr_of e)"
    and "compare_weak_ptr (weak_ptr_of e) (weak_ptr_of e)"
    by (simp_all add: equal_to_weak_ptr_def compare_weak_ptr_def owner_before_def)
  moreover have "fst (lock h (weak_ptr_of e)) = e"
    using live(1) by (simp add: lock_live weak_ptr_of_def)
  moreover have "fst (hash_weak_ptr H h (weak_ptr_of e))
      = fst (hash_weak_ptr H h' (weak_ptr_of e))"
    using live by (simp add: hash_weak_ptr_live)
  ultimately show ?thesis by simp
qed

theorem weak_round_trip_witness:
  "0 < use_count_of example_heap (sp_ctrl owner_ptr)
   \<and> 0 < use_count_of example_heap_later (sp_ctrl owner_ptr)
   \<and> equal_to_weak_ptr (weak_ptr_of owner_ptr) (weak_ptr_of owner_ptr)
   \<and> compare_weak_ptr (weak_ptr_of owner_ptr) (weak_ptr_of owner_ptr)
   \<and> fst (lock example_heap (weak_ptr_of owner_ptr)) = owner_ptr
   \<and> fst (hash_weak_ptr hash_ptr_cast example_heap (weak_ptr_of owner_ptr))
       = fst (hash_weak_ptr hash_ptr_cast example_heap_later (weak_ptr_of owner_ptr))"
proof -
  have live: "0 < use_count_of example_heap (sp_ctrl owner_ptr)"
    by (simp add: use_count_of_def example_heap_def owner_ptr_def nullptr_def)
  have later: "0 < use_count_of example_heap_later (sp_ctrl owner_ptr)"
    by (simp add: use_count_of_def example_heap_later_def owner_ptr_def nullptr_def)
  from weak_round_trip [OF live later, of hash_ptr_cast] live later show ?thesis
    by blast
qed

text \<open>
  Claim C1: for two non-expired weak pointers of one type, if the equality returns true
  then the hash returns the same value on both. The code does not do this. The two
  weak pointers \<open>weak_x\<close> and \<open>weak_y\<close> are live and the equality returns true on them,
  under either of its names, since they share the control block of \<^verbatim>\<open>owner\<close>; their
  hashes are the hashes of the two different addresses they store.
\<close>

theorem equal_with_different_hash:
  "\<not> expired example_heap weak_x \<and> \<not> expired example_heap weak_y
   \<and> equal_to_weak_ptr weak_x weak_y \<and> compare_weak_ptr weak_x weak_y
   \<and> fst (hash_weak_ptr hash_ptr_cast example_heap weak_x) = 0x2000
   \<and> fst (hash_weak_ptr hash_ptr_cast example_heap weak_y) = 0x2004
   \<and> fst (hash_weak_ptr hash_ptr_cast example_heap weak_x)
       \<noteq> fst (hash_weak_ptr hash_ptr_cast example_heap weak_y)"
  by (simp add: example_live hash_weak_ptr_live equal_to_weak_ptr_def compare_weak_ptr_def
      owner_before_def hash_ptr_cast_def)
    (simp add: weak_x_def weak_y_def)

end
